theory Spec2Isabelle
  imports Complex_Main
begin

section \<open>Telemetry pipeline: \<open>Reporter.ts\<close>\<close>

text \<open>
  \<open>GuardianError\<close> of \<open>types.ts\<close>. Optional fields are options; \<open>metadata\<close>
  (a \<open>Record<string, any>\<close>) is kept as an association list of strings.
\<close>

record guardian_error =
  message :: string
  stack :: "string option"
  componentStack :: "string option"
  errorBoundary :: "string option"
  timestamp :: nat
  userId :: "string option"
  sessionId :: "string option"
  userAgent :: "string option"
  url :: "string option"
  metadata :: "(string \<times> string) list option"

text \<open>
  What a call of the caller-supplied \<open>customReporter\<close> does, as far as \<open>report\<close> can
  tell: the awaited call settles normally, or it throws synchronously, or the promise it
  returns rejects. The last two both land in the \<open>catch\<close> of \<open>report\<close>.
\<close>

datatype sink_outcome = SinkReturns | SinkThrows | SinkRejects

text \<open>
  What the awaited \<open>fetch\<close> of \<open>flush\<close> does: it resolves with \<open>response.ok\<close>, it
  resolves with a status for which \<open>response.ok\<close> is false (the code then throws
  \<open>HTTP status\<close> itself), or it rejects.
\<close>

datatype delivery = Delivered | HttpNotOk nat | FetchRejects

text \<open>
  \<open>ReporterConfig\<close> as the constructor leaves it in \<open>this.config\<close>
  (\<open>{batchSize: 10, flushInterval: 5000, enabled: true, ...config}\<close>). Every field is
  optional in the interface, so every field is an option; \<open>None\<close> is \<open>undefined\<close>.
\<close>

record reporter_config =
  endpoint :: "string option"
  apiKey :: "string option"
  batchSize :: "nat option"
  flushInterval :: "nat option"
  customReporter :: "(guardian_error \<Rightarrow> sink_outcome) option"
  enabled :: "bool option"

text \<open>
  The effects of the reporter on the world outside it, in the order they happen. A call
  of the custom reporter is logged with the queue as it stands at the moment of the call.
\<close>

datatype reporter_event =
    CustomReporterCall guardian_error "guardian_error list"
  | FetchPost string "string option" "guardian_error list"
  | ConsoleError string

record reporter =
  config :: reporter_config
  queue :: "guardian_error list"
  trace :: "reporter_event list"

text \<open>
  The state of the network while one \<open>flush\<close> is suspended at \<open>await fetch(...)\<close>:
  how the request settles, and what \<open>this.queue\<close> holds when it does (the records
  that \<open>report\<close> calls pushed while the request was in flight; \<open>flush\<close> has emptied
  the queue before suspending).
\<close>

record net =
  outcome :: delivery
  inflight :: "guardian_error list"

text \<open>JavaScript truthiness of the optional fields that the code tests.\<close>

definition truthy_bool :: "bool option \<Rightarrow> bool" where
  "truthy_bool b = (b = Some True)"

definition truthy_string :: "string option \<Rightarrow> bool" where
  "truthy_string s = (case s of None \<Rightarrow> False | Some v \<Rightarrow> v \<noteq> [])"

text \<open>\<open>this.config.batchSize || 10\<close>: \<open>undefined\<close> and \<open>0\<close> both give 10.\<close>

definition batchSize_or_10 :: "reporter_config \<Rightarrow> nat" where
  "batchSize_or_10 c = (case batchSize c of None \<Rightarrow> 10 | Some n \<Rightarrow> (if n = 0 then 10 else n))"

definition log_event :: "reporter_event \<Rightarrow> reporter \<Rightarrow> reporter" where
  "log_event ev s = s\<lparr>trace := trace s @ [ev]\<rparr>"

text \<open>
  \<open>Reporter.flush\<close> (lines 51-84). The header sent is \<open>Authorization: Bearer apiKey\<close>
  when \<open>apiKey\<close> is truthy. On failure the batch goes back in front of whatever the
  queue holds by then, provided that holds fewer than 100 records.
\<close>

definition flush :: "net \<Rightarrow> reporter \<Rightarrow> reporter" where
  "flush n s =
     (case endpoint (config s) of
        None \<Rightarrow> s
      | Some u \<Rightarrow>
          if queue s = [] \<or> u = [] then s
          else
            let errorsToSend = queue s;
                s1 = log_event (FetchPost u
                       (if truthy_string (apiKey (config s)) then apiKey (config s) else None)
                       errorsToSend) (s\<lparr>queue := []\<rparr>);
                s2 = s1\<lparr>queue := queue s1 @ inflight n\<rparr>
            in (case outcome n of
                  Delivered \<Rightarrow> s2
                | _ \<Rightarrow>
                    let s3 = log_event (ConsoleError ''Failed to report errors:'') s2
                    in if length (queue s3) < 100
                       then s3\<lparr>queue := errorsToSend @ queue s3\<rparr>
                       else s3))"

text \<open>
  \<open>Reporter.report\<close> (lines 24-46). The result is \<open>Inr\<close> of the new state when the
  promise resolves, \<open>Inl\<close> of a message when it rejects; the only call that can throw,
  the custom reporter, is inside a \<open>try\<close>.
\<close>

definition report :: "guardian_error \<Rightarrow> net \<Rightarrow> reporter \<Rightarrow> string + reporter" where
  "report error n s =
     (if \<not> truthy_bool (enabled (config s)) then Inr s
      else
        let s1 = s\<lparr>queue := queue s @ [error]\<rparr>
        in case customReporter (config s1) of
             Some f \<Rightarrow>
               let s2 = log_event (CustomReporterCall error (queue s1)) s1
               in (case f error of
                     SinkReturns \<Rightarrow> Inr s2
                   | _ \<Rightarrow> Inr (log_event (ConsoleError ''Custom reporter failed:'') s2))
           | None \<Rightarrow>
               if length (queue s1) \<ge> batchSize_or_10 (config s1)
               then Inr (flush n s1)
               else Inr s1)"

text \<open>The callback of the flush timer (lines 94-98).\<close>

definition flushTimer_tick :: "net \<Rightarrow> reporter \<Rightarrow> reporter" where
  "flushTimer_tick n s = (if length (queue s) > 0 then flush n s else s)"

text \<open>\<open>getQueueSize\<close> and the state a constructor call leaves.\<close>

definition getQueueSize :: "reporter \<Rightarrow> nat" where
  "getQueueSize s = length (queue s)"

definition new_Reporter :: "reporter_config \<Rightarrow> reporter" where
  "new_Reporter c = \<lparr>config = c, queue = [], trace = []\<rparr>"

text \<open>
  A run of the reporter: calls of \<open>report\<close>, of \<open>flush\<close> and firings of the timer, each
  with the network state it meets. A rejected \<open>report\<close> would stop the run.
\<close>

datatype reporter_call = Report guardian_error net | Flush net | TimerTick net

fun run_calls :: "reporter_call list \<Rightarrow> reporter \<Rightarrow> string + reporter" where
  "run_calls [] s = Inr s"
| "run_calls (Report e n # cs) s =
     (case report e n s of Inl msg \<Rightarrow> Inl msg | Inr s' \<Rightarrow> run_calls cs s')"
| "run_calls (Flush n # cs) s = run_calls cs (flush n s)"
| "run_calls (TimerTick n # cs) s = run_calls cs (flushTimer_tick n s)"

text \<open>The records handed to \<open>report\<close> in a run, in order.\<close>

fun reported :: "reporter_call list \<Rightarrow> guardian_error list" where
  "reported [] = []"
| "reported (Report e n # cs) = e # reported cs"
| "reported (Flush n # cs) = reported cs"
| "reported (TimerTick n # cs) = reported cs"

text \<open>The network requests in a trace.\<close>

fun is_fetch :: "reporter_event \<Rightarrow> bool" where
  "is_fetch (FetchPost u k b) = True"
| "is_fetch _ = False"

definition sends :: "reporter \<Rightarrow> reporter_event list" where
  "sends s = filter is_fetch (trace s)"

text \<open>Concrete inputs: a record, a network that is down, and three configurations.\<close>

definition err0 :: guardian_error where
  "err0 = \<lparr>message = ''boom'', stack = None, componentStack = None, errorBoundary = None,
            timestamp = 0, userId = None, sessionId = None, userAgent = None, url = None,
            metadata = None\<rparr>"

definition net_down :: net where
  "net_down = \<lparr>outcome = FetchRejects, inflight = []\<rparr>"

definition default_config :: reporter_config where
  "default_config = \<lparr>endpoint = None, apiKey = None, batchSize = Some 10,
                      flushInterval = Some 5000, customReporter = None, enabled = Some True\<rparr>"

definition endpoint_config :: reporter_config where
  "endpoint_config = default_config\<lparr>endpoint := Some ''https://collector.example/errors''\<rparr>"

definition sink0 :: "guardian_error \<Rightarrow> sink_outcome" where
  "sink0 e = SinkReturns"

definition throwing_sink :: "guardian_error \<Rightarrow> sink_outcome" where
  "throwing_sink e = SinkThrows"

definition sink_config :: reporter_config where
  "sink_config = default_config\<lparr>customReporter := Some sink0\<rparr>"

definition throwing_sink_config :: reporter_config where
  "throwing_sink_config = default_config\<lparr>customReporter := Some throwing_sink\<rparr>"

definition ten_reports :: "reporter_call list" where
  "ten_reports = replicate 10 (Report err0 net_down)"


section \<open>Recovery engine: \<open>RecoveryEngine.ts\<close>\<close>

text \<open>
  \<open>RecoveryStrategy\<close> is a closed union in the types; \<open>performRecovery\<close> still has a
  \<open>default\<close> branch for any other tag met at run time.
\<close>

datatype recovery_strategy = Retry | Fallback | Reload | Redirect | Custom | OtherStrategy string

text \<open>What the awaited \<open>customAction()\<close> does: it completes, or it throws or rejects.\<close>

datatype custom_outcome = CustomCompletes | CustomThrows

text \<open>
  \<open>RecoveryAction\<close>. A component is represented by its name; \<open>customAction\<close> by what a
  call of it does.
\<close>

record recovery_action =
  strategy :: recovery_strategy
  fallbackComponent :: "string option"
  redirectUrl :: "string option"
  retryCount :: "nat option"
  maxRetries :: "nat option"
  customAction :: "custom_outcome option"

datatype callback_outcome = CallbackReturns | CallbackThrows

text \<open>\<open>RecoveryEngineConfig\<close>; all fields but the fallback component are required.\<close>

record recovery_engine_config =
  enabled_rc :: bool
  strategies :: "recovery_strategy list"
  maxRetries_rc :: nat
  fallbackComponent_rc :: "string option"
  onRecovery :: "recovery_action \<Rightarrow> callback_outcome"

text \<open>The effects of the engine on its host, in the order they happen.\<close>

datatype recovery_event =
    OnRecovery recovery_action
  | Delay nat
  | LocationReload
  | LocationAssign string
  | CustomActionCall
  | ConsoleWarn string
  | ConsoleErr string

record recovery_engine =
  config_re :: recovery_engine_config
  retryCount_re :: nat
  isRecovering :: bool
  trace_re :: "recovery_event list"

text \<open>Whether the host's \<open>window.location\<close> throws on reload or on assignment.\<close>

record host =
  reload_throws :: bool
  assign_throws :: bool

text \<open>A settled promise: resolved with a value, or rejected.\<close>

datatype 'a settled = Resolved 'a | Rejected string

definition new_RecoveryEngine :: "recovery_engine_config \<Rightarrow> recovery_engine" where
  "new_RecoveryEngine c = \<lparr>config_re = c, retryCount_re = 0, isRecovering = False, trace_re = []\<rparr>"

text \<open>
  The delay of \<open>handleRetry\<close>: \<open>Math.min(1000 * Math.pow(2, retryCount), 10000)\<close>, for
  a count that is a natural number.
\<close>

definition backoff_delay :: "nat \<Rightarrow> nat" where
  "backoff_delay c = min (1000 * 2 ^ c) 10000"

text \<open>\<open>action.maxRetries || this.config.maxRetries\<close> and \<open>action.retryCount || 0\<close>.\<close>

definition maxRetries_or_config :: "recovery_action \<Rightarrow> recovery_engine_config \<Rightarrow> nat" where
  "maxRetries_or_config a c =
     (case maxRetries a of None \<Rightarrow> maxRetries_rc c
      | Some m \<Rightarrow> (if m = 0 then maxRetries_rc c else m))"

definition retryCount_or_0 :: "recovery_action \<Rightarrow> nat" where
  "retryCount_or_0 a = (case retryCount a of None \<Rightarrow> 0 | Some c \<Rightarrow> c)"

text \<open>
  The strategy handlers (lines 76-166). None of them writes a field of the engine, so
  each returns what its promise settles to and the effects it had.
\<close>

definition handleRetry ::
  "recovery_engine_config \<Rightarrow> recovery_action \<Rightarrow> bool settled \<times> recovery_event list" where
  "handleRetry c a =
     (if retryCount_or_0 a \<ge> maxRetries_or_config a c
      then (Resolved False, [ConsoleWarn ''Max retries exceeded for recovery action''])
      else (Resolved True, [Delay (backoff_delay (retryCount_or_0 a))]))"

definition handleFallback ::
  "recovery_engine_config \<Rightarrow> recovery_action \<Rightarrow> bool settled \<times> recovery_event list" where
  "handleFallback c a =
     (if fallbackComponent a \<noteq> None then (Resolved True, [])
      else if fallbackComponent_rc c \<noteq> None then (Resolved True, [])
      else (Resolved False, []))"

definition handleReload :: "host \<Rightarrow> recovery_action \<Rightarrow> bool settled \<times> recovery_event list" where
  "handleReload h a =
     (if reload_throws h
      then (Resolved False, [LocationReload, ConsoleErr ''Reload strategy failed:''])
      else (Resolved True, [LocationReload]))"

definition handleRedirect :: "host \<Rightarrow> recovery_action \<Rightarrow> bool settled \<times> recovery_event list" where
  "handleRedirect h a =
     (let target = (case redirectUrl a of None \<Rightarrow> ''/'' | Some u \<Rightarrow> (if u = [] then ''/'' else u))
      in if assign_throws h
         then (Resolved False, [LocationAssign target, ConsoleErr ''Redirect strategy failed:''])
         else (Resolved True, [LocationAssign target]))"

definition handleCustom :: "recovery_action \<Rightarrow> bool settled \<times> recovery_event list" where
  "handleCustom a =
     (case customAction a of
        None \<Rightarrow> (Resolved False, [ConsoleWarn ''Custom action not provided''])
      | Some CustomCompletes \<Rightarrow> (Resolved True, [CustomActionCall])
      | Some CustomThrows \<Rightarrow>
          (Resolved False, [CustomActionCall, ConsoleErr ''Custom strategy failed:'']))"

definition performRecovery ::
  "recovery_engine_config \<Rightarrow> host \<Rightarrow> recovery_action \<Rightarrow> bool settled \<times> recovery_event list" where
  "performRecovery c h a =
     (case strategy a of
        Retry \<Rightarrow> handleRetry c a
      | Fallback \<Rightarrow> handleFallback c a
      | Reload \<Rightarrow> handleReload h a
      | Redirect \<Rightarrow> handleRedirect h a
      | Custom \<Rightarrow> handleCustom a
      | OtherStrategy tag \<Rightarrow> (Resolved False, [ConsoleWarn (''Unknown recovery strategy: '' @ tag)]))"

definition log_re :: "recovery_event list \<Rightarrow> recovery_engine \<Rightarrow> recovery_engine" where
  "log_re evs s = s\<lparr>trace_re := trace_re s @ evs\<rparr>"

text \<open>
  \<open>RecoveryEngine.execute\<close> (lines 15-45). \<open>onRecovery\<close> is called before the
  \<open>try\<close>, so an exception of it rejects the promise with the flag already set. The
  retry is a call of \<open>execute\<close> itself, made while the flag is still set.
\<close>

function execute ::
  "recovery_action \<Rightarrow> host \<Rightarrow> recovery_engine \<Rightarrow> bool settled \<times> recovery_engine" where
  "execute a h s =
     (if \<not> enabled_rc (config_re s) \<or> isRecovering s then (Resolved False, s)
      else
        let s1 = s\<lparr>isRecovering := True\<rparr>
        in case onRecovery (config_re s1) a of
             CallbackThrows \<Rightarrow> (Rejected ''onRecovery'', log_re [OnRecovery a] s1)
           | CallbackReturns \<Rightarrow>
               let s2 = log_re [OnRecovery a] s1;
                   (r, evs) = performRecovery (config_re s2) h a;
                   s3 = log_re evs s2
               in (case r of
                     Resolved success \<Rightarrow>
                       if success
                       then (Resolved True, s3\<lparr>retryCount_re := 0, isRecovering := False\<rparr>)
                       else if retryCount_re s3 < maxRetries_rc (config_re s3)
                       then execute a h (s3\<lparr>retryCount_re := retryCount_re s3 + 1\<rparr>)
                       else (Resolved False, s3\<lparr>isRecovering := False\<rparr>)
                   | Rejected msg \<Rightarrow>
                       (Resolved False,
                        (log_re [ConsoleErr ''Recovery execution failed:''] s3)
                          \<lparr>isRecovering := False\<rparr>)))"
  by pat_completeness auto
termination
  by (relation "measure (\<lambda>(a, h, s). if isRecovering s then 0 else 1)")
     (auto simp: log_re_def)

declare execute.simps [simp del]

definition getRetryCount :: "recovery_engine \<Rightarrow> nat" where
  "getRetryCount s = retryCount_re s"

definition isCurrentlyRecovering :: "recovery_engine \<Rightarrow> bool" where
  "isCurrentlyRecovering s = isRecovering s"








text \<open>
  Concrete inputs: an engine with \<open>maxRetries = 2\<close>, the same engine in the middle of
  a recovery, and two actions.
\<close>

definition engine2_config :: recovery_engine_config where
  "engine2_config = \<lparr>enabled_rc = True, strategies = [Retry, Fallback], maxRetries_rc = 2,
                      fallbackComponent_rc = None, onRecovery = (\<lambda>a. CallbackReturns)\<rparr>"

definition retry_action :: recovery_action where
  "retry_action = \<lparr>strategy = Retry, fallbackComponent = None, redirectUrl = None,
                    retryCount = None, maxRetries = Some 2, customAction = None\<rparr>"

definition failing_action :: recovery_action where
  "failing_action = \<lparr>strategy = Custom, fallbackComponent = None, redirectUrl = None,
                      retryCount = None, maxRetries = None, customAction = Some CustomThrows\<rparr>"

definition recovering_engine :: recovery_engine where
  "recovering_engine =
     \<lparr>config_re = engine2_config, retryCount_re = 1, isRecovering = True,
      trace_re = [OnRecovery failing_action]\<rparr>"

definition host0 :: host where
  "host0 = \<lparr>reload_throws = False, assign_throws = False\<rparr>"


section \<open>Auto-correct engine: \<open>AutoCorrect.ts\<close>\<close>

type_synonym element = nat

datatype auto_correct_strategy =
  ReloadComponent | RestoreContent | FixLayout | InjectFallback | RetryRender

record white_page_detection =
  enabled_wp :: bool
  threshold :: real
  checkInterval :: nat

record page_break_detection =
  enabled_pb :: bool
  selectors_pb :: "string list"
  minHeight :: real

record visual_healing =
  enabled_vh :: bool
  strategies_vh :: "auto_correct_strategy list"

record auto_correct_config =
  enabled_ac :: bool
  whitePageDetection :: white_page_detection
  pageBreakDetection :: page_break_detection
  visualHealing :: visual_healing

text \<open>The methods of the engine that it registers with the browser as callbacks.\<close>

datatype ac_callback = CheckForWhitePage | CheckForPageBreaks | CheckForVisualIssues

text \<open>
  The part of the browser the engine registers with: the interval timers that are
  running (identifier, callback, period), the mutation observers connected to
  \<open>document.body\<close>, the resize observers with the elements each one observes, the
  identifier the next timer gets (identifiers are positive), the elements of the document
  and the markup of the body.
\<close>

record browser =
  intervals :: "(nat \<times> ac_callback \<times> nat) list"
  mutationObservers :: "ac_callback list"
  resizeObservers :: "(ac_callback \<times> element list) list"
  next_timer :: nat
  all_elements :: "element list"
  body_innerHTML :: string

datatype auto_correct_action_type = WhitePageFix | PageBreakFix | LayoutHeal | ContentRestore

text \<open>
  The fields of the class, and the types of the actions handed to \<open>onAutoCorrect\<close> so
  far.
\<close>

record auto_correct =
  config_ac :: auto_correct_config
  whitePageCheckInterval :: "nat option"
  isRunning :: bool
  lastContentSnapshot :: string
  contentHistory :: "string list"
  reportedActions :: "auto_correct_action_type list"

definition new_AutoCorrect :: "auto_correct_config \<Rightarrow> auto_correct" where
  "new_AutoCorrect c = \<lparr>config_ac = c, whitePageCheckInterval = None, isRunning = False,
                         lastContentSnapshot = [], contentHistory = [], reportedActions = []\<rparr>"

definition setInterval :: "ac_callback \<Rightarrow> nat \<Rightarrow> browser \<Rightarrow> nat \<times> browser" where
  "setInterval cb ms b =
     (next_timer b,
      b\<lparr>intervals := intervals b @ [(next_timer b, cb, ms)], next_timer := next_timer b + 1\<rparr>)"

definition clearInterval :: "nat \<Rightarrow> browser \<Rightarrow> browser" where
  "clearInterval i b = b\<lparr>intervals := filter (\<lambda>t. fst t \<noteq> i) (intervals b)\<rparr>"

text \<open>\<open>startWhitePageDetection\<close> (lines 85-89): the timer is kept in a field.\<close>

definition startWhitePageDetection :: "auto_correct \<times> browser \<Rightarrow> auto_correct \<times> browser" where
  "startWhitePageDetection sb =
     (let (i, b') = setInterval CheckForWhitePage
                      (checkInterval (whitePageDetection (config_ac (fst sb)))) (snd sb)
      in ((fst sb)\<lparr>whitePageCheckInterval := Some i\<rparr>, b'))"

text \<open>
  \<open>startPageBreakDetection\<close> (lines 177-187) and \<open>startVisualHealing\<close> (lines
  256-268): each observer is a local constant of the method; no field of the engine
  refers to it.
\<close>

definition startPageBreakDetection :: "browser \<Rightarrow> browser" where
  "startPageBreakDetection b = b\<lparr>mutationObservers := mutationObservers b @ [CheckForPageBreaks]\<rparr>"

definition startVisualHealing :: "browser \<Rightarrow> browser" where
  "startVisualHealing b =
     b\<lparr>resizeObservers := resizeObservers b @ [(CheckForVisualIssues, all_elements b)]\<rparr>"

text \<open>\<open>AutoCorrect.start\<close> (lines 52-68).\<close>

definition start :: "auto_correct \<times> browser \<Rightarrow> auto_correct \<times> browser" where
  "start sb =
     (if isRunning (fst sb) then sb
      else
        let s1 = (fst sb)\<lparr>isRunning := True\<rparr>;
            sb2 = (if enabled_wp (whitePageDetection (config_ac s1))
                   then startWhitePageDetection (s1, snd sb) else (s1, snd sb));
            b3 = (if enabled_pb (pageBreakDetection (config_ac s1))
                  then startPageBreakDetection (snd sb2) else snd sb2);
            b4 = (if enabled_vh (visualHealing (config_ac s1))
                  then startVisualHealing b3 else b3)
        in (fst sb2, b4))"

text \<open>
  \<open>AutoCorrect.stop\<close> (lines 73-80). A timer identifier is truthy when it is not 0.
\<close>

definition stop :: "auto_correct \<times> browser \<Rightarrow> auto_correct \<times> browser" where
  "stop sb =
     (let s1 = (fst sb)\<lparr>isRunning := False\<rparr>
      in case whitePageCheckInterval s1 of
           None \<Rightarrow> (s1, snd sb)
         | Some i \<Rightarrow>
             if i = 0 then (s1, snd sb)
             else (s1\<lparr>whitePageCheckInterval := None\<rparr>, clearInterval i (snd sb)))"

text \<open>
  What the browser still calls: on a tick of a running timer, on a mutation under the
  body, and on a resize of an observed element.
\<close>

definition fires_on_tick :: "browser \<Rightarrow> ac_callback list" where
  "fires_on_tick b = map (\<lambda>t. fst (snd t)) (intervals b)"

definition fires_on_mutation :: "browser \<Rightarrow> ac_callback list" where
  "fires_on_mutation b = mutationObservers b"

definition fires_on_resize :: "element \<Rightarrow> browser \<Rightarrow> ac_callback list" where
  "fires_on_resize e b = map fst (filter (\<lambda>ob. e \<in> set (snd ob)) (resizeObservers b))"

text \<open>\<open>saveContentSnapshot\<close> (lines 513-521): \<open>push\<close>, then one \<open>shift\<close> above 5.\<close>

definition saveContentSnapshot :: "browser \<Rightarrow> auto_correct \<Rightarrow> auto_correct" where
  "saveContentSnapshot b s =
     (let s1 = s\<lparr>lastContentSnapshot := body_innerHTML b\<rparr>;
          s2 = s1\<lparr>contentHistory := contentHistory s1 @ [lastContentSnapshot s1]\<rparr>
      in if length (contentHistory s2) > 5
         then s2\<lparr>contentHistory := tl (contentHistory s2)\<rparr>
         else s2)"

text \<open>
  \<open>restoreFromHistory\<close> (lines 449-463), the other method that writes the history:
  \<open>pop\<close> takes the newest snapshot; an empty snapshot is falsy and is not restored.
\<close>

definition restoreFromHistory :: "auto_correct \<times> browser \<Rightarrow> auto_correct \<times> browser" where
  "restoreFromHistory sb =
     (if length (contentHistory (fst sb)) > 0
      then
        let lastContent = last (contentHistory (fst sb));
            s1 = (fst sb)\<lparr>contentHistory := butlast (contentHistory (fst sb))\<rparr>
        in if lastContent \<noteq> []
           then (s1\<lparr>reportedActions := reportedActions s1 @ [ContentRestore]\<rparr>,
                 (snd sb)\<lparr>body_innerHTML := lastContent\<rparr>)
           else (s1, snd sb)
      else sb)"

text \<open>
  A history of calls on one engine: snapshots, each of the markup the body has at that
  moment, and restores.
\<close>

datatype history_call = SaveSnapshot string | RestoreFromHistory

fun run_history :: "history_call list \<Rightarrow> auto_correct \<times> browser \<Rightarrow> auto_correct \<times> browser" where
  "run_history [] sb = sb"
| "run_history (SaveSnapshot html # cs) sb =
     run_history cs (saveContentSnapshot ((snd sb)\<lparr>body_innerHTML := html\<rparr>) (fst sb),
                     (snd sb)\<lparr>body_innerHTML := html\<rparr>)"
| "run_history (RestoreFromHistory # cs) sb = run_history cs (restoreFromHistory sb)"

text \<open>Concrete inputs: the configuration the provider builds by default, and a page.\<close>

definition default_ac_config :: auto_correct_config where
  "default_ac_config =
     \<lparr>enabled_ac = True,
      whitePageDetection = \<lparr>enabled_wp = True, threshold = 0.3, checkInterval = 5000\<rparr>,
      pageBreakDetection = \<lparr>enabled_pb = True, selectors_pb = [''main'', ''.content'', ''#app''],
                            minHeight = 100\<rparr>,
      visualHealing = \<lparr>enabled_vh = True,
                       strategies_vh = [ReloadComponent, FixLayout, InjectFallback]\<rparr>\<rparr>"

definition full_engine :: auto_correct where
  "full_engine = (new_AutoCorrect default_ac_config)
                   \<lparr>contentHistory := [''a'', ''b'', ''c'', ''d'', ''e'']\<rparr>"

definition browser0 :: browser where
  "browser0 = \<lparr>intervals = [], mutationObservers = [], resizeObservers = [], next_timer = 1,
               all_elements = [0, 1, 2], body_innerHTML = ''<main>page</main>''\<rparr>"


section \<open>Layout anomaly detector: \<open>LayoutWatcher.ts\<close>\<close>

text \<open>
  A JavaScript number, as far as the checks need it: coordinates and thresholds are
  finite and modelled as reals (rounding is not modelled); a quotient is not a number
  when it is \<open>0/0\<close> and infinite when only its divisor is 0 (a zero divisor is taken to
  be \<open>+0\<close>, as the extent of a box is).
\<close>

datatype jsnum = NaN | NegInf | Fin real | PosInf

definition js_div :: "real \<Rightarrow> real \<Rightarrow> jsnum" where
  "js_div a b =
     (if b = 0 then (if a = 0 then NaN else if a > 0 then PosInf else NegInf)
      else Fin (a / b))"

text \<open>\<open>a > t\<close> for a finite \<open>t\<close>: false for \<open>NaN\<close>.\<close>

fun js_gt :: "jsnum \<Rightarrow> real \<Rightarrow> bool" where
  "js_gt NaN t = False"
| "js_gt NegInf t = False"
| "js_gt (Fin a) t = (a > t)"
| "js_gt PosInf t = True"

text \<open>\<open>Math.max\<close> of two numbers: \<open>NaN\<close> as soon as one is.\<close>

fun js_max :: "jsnum \<Rightarrow> jsnum \<Rightarrow> jsnum" where
  "js_max NaN b = NaN"
| "js_max a NaN = NaN"
| "js_max PosInf b = PosInf"
| "js_max a PosInf = PosInf"
| "js_max NegInf b = b"
| "js_max a NegInf = a"
| "js_max (Fin a) (Fin b) = Fin (max a b)"

text \<open>
  A \<open>DOMRect\<close> with a non-negative extent, as \<open>getBoundingClientRect\<close> returns it:
  \<open>right\<close> and \<open>bottom\<close> are derived.
\<close>

record dom_rect =
  rect_left :: real
  rect_top :: real
  rect_width :: real
  rect_height :: real

definition rect_right :: "dom_rect \<Rightarrow> real" where
  "rect_right r = rect_left r + rect_width r"

definition rect_bottom :: "dom_rect \<Rightarrow> real" where
  "rect_bottom r = rect_top r + rect_height r"

text \<open>The properties of a \<open>CSSStyleDeclaration\<close> that the checks read.\<close>

record computed_style =
  overflowX :: string
  overflowY :: string
  clipPath :: string
  clip :: string
  position :: string
  visibility :: string
  display :: string
  opacity :: real

text \<open>
  The document at the moment of one check: what \<open>document.contains\<close>,
  \<open>getBoundingClientRect\<close>, \<open>window.getComputedStyle\<close> and \<open>parentElement\<close> answer,
  the trimmed text of an element and the number of its children.
\<close>

record dom =
  contains :: "element \<Rightarrow> bool"
  getBoundingClientRect :: "element \<Rightarrow> dom_rect"
  getComputedStyle :: "element \<Rightarrow> computed_style"
  parentElement :: "element \<Rightarrow> element option"
  textContent_trim :: "element \<Rightarrow> string"
  children_length :: "element \<Rightarrow> nat"

datatype anomaly_type = Overflow | Clipping | Positioning | Sizing | Visibility

datatype severity = Low | Medium | High | Critical

text \<open>
  \<open>LayoutAnomaly\<close>, without the fields that are text derived from the others
  (\<open>description\<close>, \<open>selector\<close>, \<open>computedStyles\<close>) and without the time stamp.
\<close>

record layout_anomaly =
  anomaly_type :: anomaly_type
  anomaly_element :: element
  anomaly_severity :: severity
  boundingRect :: "dom_rect option"

record thresholds =
  overflow :: real
  clipping :: real
  positioning :: real

text \<open>
  \<open>LayoutWatcherConfig\<close>. \<open>onAnomaly\<close> is the callback of the host, given by what a
  call of it does for an anomaly: it returns, or it throws.
\<close>

record layout_watcher_config =
  enabled_lw :: bool
  interval :: nat
  selectors :: "string list"
  thresholds :: thresholds
  onAnomaly :: "layout_anomaly \<Rightarrow> callback_outcome"

text \<open>
  The fields of the watcher that the checks read and write: the configuration and the
  baseline map, from an element to the box recorded at its last check.
\<close>

record layout_watcher =
  config_lw :: layout_watcher_config
  baselineMetrics :: "element \<rightharpoonup> dom_rect"

text \<open>\<open>calculateSeverity\<close> (lines 317-329) and \<open>calculateSeverityFromDelta\<close> (334-339).\<close>

definition calculateSeverity :: "dom_rect \<Rightarrow> dom_rect \<Rightarrow> severity" where
  "calculateSeverity rect parentRect =
     (let overflowRatio =
            js_max (js_div (rect_right rect - rect_right parentRect) (rect_width parentRect))
              (js_max (js_div (rect_left parentRect - rect_left rect) (rect_width parentRect))
                (js_max (js_div (rect_bottom rect - rect_bottom parentRect) (rect_height parentRect))
                        (js_div (rect_top parentRect - rect_top rect) (rect_height parentRect))))
      in if js_gt overflowRatio 0.5 then Critical
         else if js_gt overflowRatio 0.3 then High
         else if js_gt overflowRatio 0.1 then Medium
         else Low)"

definition calculateSeverityFromDelta :: "jsnum \<Rightarrow> severity" where
  "calculateSeverityFromDelta delta =
     (if js_gt delta 100 then Critical
      else if js_gt delta 50 then High
      else if js_gt delta 20 then Medium
      else Low)"

text \<open>The five checks (lines 175-312); each returns the anomalies it reports.\<close>

definition checkOverflowAnomaly ::
  "dom \<Rightarrow> element \<Rightarrow> dom_rect \<Rightarrow> computed_style \<Rightarrow> layout_anomaly list" where
  "checkOverflowAnomaly d e rect computedStyle =
     (if overflowX computedStyle = ''visible'' \<or> overflowY computedStyle = ''visible''
      then
        case parentElement d e of
          None \<Rightarrow> []
        | Some parent \<Rightarrow>
            let parentRect = getBoundingClientRect d parent;
                ovX = (rect_right rect > rect_right parentRect
                       \<or> rect_left rect < rect_left parentRect);
                ovY = (rect_bottom rect > rect_bottom parentRect
                       \<or> rect_top rect < rect_top parentRect)
            in if ovX \<or> ovY
               then [\<lparr>anomaly_type = Overflow, anomaly_element = e,
                       anomaly_severity = calculateSeverity rect parentRect,
                       boundingRect = Some rect\<rparr>]
               else []
      else [])"

definition checkClippingAnomaly ::
  "element \<Rightarrow> dom_rect \<Rightarrow> computed_style \<Rightarrow> layout_anomaly list" where
  "checkClippingAnomaly e rect computedStyle =
     (if clipPath computedStyle \<noteq> ''none'' \<or> clip computedStyle \<noteq> ''auto''
      then
        if rect_width rect = 0 \<or> rect_height rect = 0
        then [\<lparr>anomaly_type = Clipping, anomaly_element = e, anomaly_severity = High,
                boundingRect = Some rect\<rparr>]
        else []
      else [])"

definition checkPositioningAnomaly ::
  "layout_watcher_config \<Rightarrow> dom \<Rightarrow> element \<Rightarrow> dom_rect \<Rightarrow> dom_rect option
     \<Rightarrow> layout_anomaly list" where
  "checkPositioningAnomaly c d e rect baseline =
     (case baseline of
        None \<Rightarrow> []
      | Some base \<Rightarrow>
          let pos = position (getComputedStyle d e);
              threshold = positioning (thresholds c)
          in if pos = ''absolute'' \<or> pos = ''fixed''
             then
               let deltaX = \<bar>rect_left rect - rect_left base\<bar>;
                   deltaY = \<bar>rect_top rect - rect_top base\<bar>;
                   deltaDistance = sqrt (deltaX * deltaX + deltaY * deltaY)
               in if deltaDistance > threshold * 100
                  then [\<lparr>anomaly_type = Positioning, anomaly_element = e,
                          anomaly_severity = calculateSeverityFromDelta (Fin deltaDistance),
                          boundingRect = Some rect\<rparr>]
                  else []
             else [])"

definition checkSizingAnomaly ::
  "layout_watcher_config \<Rightarrow> element \<Rightarrow> dom_rect \<Rightarrow> dom_rect option \<Rightarrow> layout_anomaly list" where
  "checkSizingAnomaly c e rect baseline =
     (case baseline of
        None \<Rightarrow> []
      | Some base \<Rightarrow>
          let threshold = overflow (thresholds c);
              widthChange = js_div \<bar>rect_width rect - rect_width base\<bar> (rect_width base);
              heightChange = js_div \<bar>rect_height rect - rect_height base\<bar> (rect_height base)
          in if js_gt widthChange threshold \<or> js_gt heightChange threshold
             then [\<lparr>anomaly_type = Sizing, anomaly_element = e,
                     anomaly_severity = calculateSeverityFromDelta (js_max widthChange heightChange),
                     boundingRect = Some rect\<rparr>]
             else [])"

definition checkVisibilityAnomaly ::
  "dom \<Rightarrow> element \<Rightarrow> computed_style \<Rightarrow> layout_anomaly list" where
  "checkVisibilityAnomaly d e computedStyle =
     (if visibility computedStyle = ''hidden'' \<or> display computedStyle = ''none''
         \<or> opacity computedStyle = 0
      then
        if textContent_trim d e \<noteq> [] \<or> children_length d e > 0
        then [\<lparr>anomaly_type = Visibility, anomaly_element = e, anomaly_severity = Medium,
                boundingRect = None\<rparr>]
        else []
      else [])"

text \<open>
  \<open>reportAnomaly\<close> (lines 362-364) calls \<open>config.onAnomaly\<close>, and no caller up to
  \<open>checkElementForAnomalies\<close> has a \<open>try\<close> around it: an exception of the callback
  leaves the check at once. The anomalies that the checks find are reported in order,
  up to and including the first one for which the callback throws; the result is how
  the reporting ended and the anomalies handed to the callback.
\<close>

datatype check_result = CheckReturns | CheckThrows

fun reportAnomalies ::
  "layout_watcher_config \<Rightarrow> layout_anomaly list \<Rightarrow> check_result \<times> layout_anomaly list" where
  "reportAnomalies c [] = (CheckReturns, [])"
| "reportAnomalies c (a # as) =
     (case onAnomaly c a of
        CallbackThrows \<Rightarrow> (CheckThrows, [a])
      | CallbackReturns \<Rightarrow>
          (case reportAnomalies c as of (r, handed) \<Rightarrow> (r, a # handed)))"

text \<open>
  \<open>checkElementForAnomalies\<close> (lines 142-170): how the call ended, the anomalies
  handed to \<open>onAnomaly\<close>, in order, and the watcher. The baseline of the element is
  written in the last statement, so only when no callback threw.
\<close>

definition checkElementForAnomalies ::
  "dom \<Rightarrow> element \<Rightarrow> layout_watcher
     \<Rightarrow> check_result \<times> layout_anomaly list \<times> layout_watcher" where
  "checkElementForAnomalies d e s =
     (if \<not> contains d e
      then (CheckReturns, [], s\<lparr>baselineMetrics := (baselineMetrics s)(e := None)\<rparr>)
      else
        let rect = getBoundingClientRect d e;
            computedStyle = getComputedStyle d e;
            baseline = baselineMetrics s e;
            (r, handed) =
              reportAnomalies (config_lw s)
                (checkOverflowAnomaly d e rect computedStyle
                 @ checkClippingAnomaly e rect computedStyle
                 @ checkPositioningAnomaly (config_lw s) d e rect baseline
                 @ checkSizingAnomaly (config_lw s) e rect baseline
                 @ checkVisibilityAnomaly d e computedStyle)
        in (case r of
              CheckThrows \<Rightarrow> (CheckThrows, handed, s)
            | CheckReturns \<Rightarrow>
                (CheckReturns, handed,
                 s\<lparr>baselineMetrics := (baselineMetrics s)(e \<mapsto> rect)\<rparr>)))"

text \<open>The parts of the result of a check.\<close>

definition check_ended :: "check_result \<times> layout_anomaly list \<times> layout_watcher \<Rightarrow> check_result" where
  "check_ended res = fst res"

definition check_handed ::
  "check_result \<times> layout_anomaly list \<times> layout_watcher \<Rightarrow> layout_anomaly list" where
  "check_handed res = fst (snd res)"

definition check_watcher ::
  "check_result \<times> layout_anomaly list \<times> layout_watcher \<Rightarrow> layout_watcher" where
  "check_watcher res = snd (snd res)"






text \<open>
  A document whose elements are plain blocks of 200 by 50, and a watcher whose callback
  throws and whose baseline for element 0 is a box of 100 by 50.
\<close>

definition plain_style :: computed_style where
  "plain_style = \<lparr>overflowX = ''hidden'', overflowY = ''hidden'', clipPath = ''none'',
                   clip = ''auto'', position = ''static'', visibility = ''visible'',
                   display = ''block'', opacity = 1\<rparr>"

definition dom_wide :: dom where
  "dom_wide = \<lparr>contains = (\<lambda>e. True),
               getBoundingClientRect =
                 (\<lambda>e. \<lparr>rect_left = 0, rect_top = 0, rect_width = 200, rect_height = 50\<rparr>),
               getComputedStyle = (\<lambda>e. plain_style),
               parentElement = (\<lambda>e. None),
               textContent_trim = (\<lambda>e. ''text''),
               children_length = (\<lambda>e. 0)\<rparr>"

definition throwing_watcher :: layout_watcher where
  "throwing_watcher =
     \<lparr>config_lw = \<lparr>enabled_lw = True, interval = 5000, selectors = [''main''],
                   thresholds = \<lparr>overflow = 0.1, clipping = 0.1, positioning = 0.1\<rparr>,
                   onAnomaly = (\<lambda>a. CallbackThrows)\<rparr>,
      baselineMetrics =
        [0 \<mapsto> \<lparr>rect_left = 0, rect_top = 0, rect_width = 100, rect_height = 50\<rparr>]\<rparr>"


section \<open>Properties of the telemetry pipeline\<close>

lemma flush_config: "config (flush n s) = config s"
  by (simp add: flush_def log_event_def Let_def split: option.splits delivery.splits)

lemma flush_no_endpoint: "\<not> truthy_string (endpoint (config s)) \<Longrightarrow> flush n s = s"
  by (simp add: flush_def truthy_string_def split: option.splits)

lemma report_resolves: "\<exists>s'. report e n s = Inr s'"
  by (simp add: report_def Let_def split: option.splits sink_outcome.splits)

lemma report_config: "report e n s = Inr s' \<Longrightarrow> config s' = config s"
  by (auto simp: report_def Let_def log_event_def flush_config
      split: option.splits sink_outcome.splits if_splits)

lemma report_no_endpoint:
  assumes "\<not> truthy_string (endpoint (config s))" and "report e n s = Inr s'"
  shows "sends s' = sends s
         \<and> queue s' = queue s @ (if truthy_bool (enabled (config s)) then [e] else [])"
  using assms
  by (auto simp: report_def Let_def flush_no_endpoint sends_def log_event_def
      split: option.splits sink_outcome.splits if_splits)

lemma run_no_endpoint:
  "\<not> truthy_string (endpoint (config s)) \<Longrightarrow>
   \<exists>s'. run_calls cs s = Inr s' \<and> config s' = config s \<and> sends s' = sends s \<and>
        queue s' = queue s @ (if truthy_bool (enabled (config s)) then reported cs else [])"
proof (induction cs s rule: run_calls.induct)
  case (1 s)
  then show ?case by simp
next
  case (2 e n cs s)
  obtain s1 where r: "report e n s = Inr s1"
    using report_resolves by blast
  have c1: "config s1 = config s"
    using r by (rule report_config)
  have q1: "sends s1 = sends s
            \<and> queue s1 = queue s @ (if truthy_bool (enabled (config s)) then [e] else [])"
    using "2.prems" r by (rule report_no_endpoint)
  from "2.IH"[OF r] "2.prems" c1 obtain s' where
    "run_calls cs s1 = Inr s'" "config s' = config s1" "sends s' = sends s1"
    "queue s' = queue s1 @ (if truthy_bool (enabled (config s1)) then reported cs else [])"
    by auto
  then show ?case
    using r c1 q1 by auto
next
  case (3 n cs s)
  have "flush n s = s"
    using "3.prems" by (rule flush_no_endpoint)
  with "3.IH" "3.prems" show ?case
    by (simp split del: if_split cong: if_cong)
next
  case (4 n cs s)
  have "flushTimer_tick n s = s"
    using "4.prems" by (simp add: flushTimer_tick_def flush_no_endpoint)
  with "4.IH" "4.prems" show ?case
    by (simp split del: if_split cong: if_cong)
qed

lemma reported_replicate: "reported (replicate k (Report e n)) = replicate k e"
  by (induction k) simp_all

text \<open>
  A failed delivery puts the batch back in front of the records that arrived while the
  request was in flight when fewer than 100 arrived, and drops the whole batch
  otherwise. The bound is on the arrivals alone, not on the queue that results.
\<close>

lemma flush_failure_requeue:
  assumes "endpoint (config s) = Some u" and "u \<noteq> []" and "queue s \<noteq> []"
    and "outcome n \<noteq> Delivered"
  shows "queue (flush n s) =
           (if length (inflight n) < 100 then queue s @ inflight n else inflight n)"
  using assms by (simp add: flush_def log_event_def Let_def split: delivery.splits)

lemma report_failing_delivery:
  assumes "truthy_bool (enabled (config s))" and "customReporter (config s) = None"
    and "endpoint (config s) = Some u" and "u \<noteq> []"
    and "outcome n \<noteq> Delivered" and "inflight n = []"
  shows "\<exists>s'. report e n s = Inr s' \<and> config s' = config s \<and> queue s' = queue s @ [e]"
  using assms by (simp add: report_def Let_def flush_failure_requeue flush_config)

lemma run_failing_delivery:
  assumes "truthy_bool (enabled (config s))" and "customReporter (config s) = None"
    and "endpoint (config s) = Some u" and "u \<noteq> []"
    and "outcome n \<noteq> Delivered" and "inflight n = []"
  shows "\<exists>s'. run_calls (replicate k (Report e n)) s = Inr s' \<and> config s' = config s \<and>
              queue s' = queue s @ replicate k e"
  using assms
proof (induction k arbitrary: s)
  case 0
  then show ?case by simp
next
  case (Suc k)
  from report_failing_delivery[OF Suc.prems, of e] obtain s1 where
    r: "report e n s = Inr s1" and c: "config s1 = config s" and q: "queue s1 = queue s @ [e]"
    by blast
  from Suc.IH[of s1] Suc.prems c obtain s' where
    "run_calls (replicate k (Report e n)) s1 = Inr s'" "config s' = config s1"
    "queue s' = queue s1 @ replicate k e"
    by auto
  then show ?case
    using r c q by (simp add: replicate_app_Cons_same)
qed

text \<open>
  Claim C1. With an endpoint whose every delivery fails, each \<open>report\<close> from the
  tenth on flushes, fails and gets the whole batch back, since the queue is empty when
  its length is compared with 100: after 101 reports the queue holds 101 records.
\<close>

theorem failing_flush_queue_exceeds_100:
  "map_sum id getQueueSize
     (run_calls (replicate 101 (Report err0 net_down)) (new_Reporter endpoint_config))
   = Inr 101"
proof -
  from run_failing_delivery[of "new_Reporter endpoint_config"
      "''https://collector.example/errors''" net_down 101 err0]
  obtain s' where
    "run_calls (replicate 101 (Report err0 net_down)) (new_Reporter endpoint_config) = Inr s'"
    "queue s' = queue (new_Reporter endpoint_config) @ replicate 101 err0"
    by (auto simp: new_Reporter_def endpoint_config_def default_config_def net_down_def
        truthy_bool_def)
  then show ?thesis
    by (simp add: getQueueSize_def new_Reporter_def)
qed

text \<open>
  Claim C4. On an enabled reporter with a custom reporter configured, \<open>report\<close>
  appends the record to the queue, then hands it to the custom reporter as the next
  effect, and resolves without issuing a request, whatever the length of the queue.
\<close>

theorem report_custom_reporter_queues_then_calls:
  assumes "truthy_bool (enabled (config s))" and "customReporter (config s) = Some f"
  shows "\<exists>s'. report e n s = Inr s' \<and> queue s' = queue s @ [e]
              \<and> take (Suc (length (trace s))) (trace s')
                  = trace s @ [CustomReporterCall e (queue s @ [e])]
              \<and> sends s' = sends s \<and> config s' = config s"
  using assms
  by (cases "f e") (simp_all add: report_def Let_def log_event_def sends_def)

theorem report_custom_reporter_queues_then_calls_witness:
  "truthy_bool (enabled (config (new_Reporter sink_config)))
   \<and> customReporter (config (new_Reporter sink_config)) = Some sink0
   \<and> (\<exists>s'. report err0 net_down (new_Reporter sink_config) = Inr s' \<and> queue s' = [err0]
           \<and> take (Suc 0) (trace s') = [CustomReporterCall err0 [err0]]
           \<and> sends s' = [] \<and> config s' = sink_config)"
  using report_custom_reporter_queues_then_calls
          [of "new_Reporter sink_config" sink0 err0 net_down]
  by (simp add: new_Reporter_def sink_config_def default_config_def truthy_bool_def sends_def)

text \<open>
  The queue does not stay as it was: one report on a fresh reporter with a custom
  reporter leaves the record in the queue.
\<close>

theorem report_custom_reporter_changes_queue:
  "report err0 net_down (new_Reporter sink_config) =
     Inr \<lparr>config = sink_config, queue = [err0], trace = [CustomReporterCall err0 [err0]]\<rparr>
   \<and> queue (new_Reporter sink_config) = []"
  by (simp add: report_def new_Reporter_def sink_config_def default_config_def truthy_bool_def
      log_event_def sink0_def)

text \<open>
  Claim C9. Without an endpoint (none, or the empty string), \<open>flush\<close> returns the
  reporter as it is, and any run of reports, flushes and timer ticks resolves with no
  request issued and with every record that was reported appended to the queue, in
  order. (A reporter that is not enabled takes no record at all.)
\<close>

theorem no_endpoint_never_sends:
  assumes "\<not> truthy_string (endpoint (config s))"
  shows "flush n s = s
         \<and> (\<exists>s'. run_calls cs s = Inr s' \<and> sends s' = sends s
                \<and> queue s' = queue s
                     @ (if truthy_bool (enabled (config s)) then reported cs else []))"
  using run_no_endpoint[OF assms, of cs] flush_no_endpoint[OF assms, of n] by auto

theorem no_endpoint_never_sends_witness:
  "\<not> truthy_string (endpoint (config (new_Reporter default_config)))
   \<and> length (reported ten_reports) \<ge> batchSize_or_10 default_config
   \<and> flush net_down (new_Reporter default_config) = new_Reporter default_config
   \<and> (\<exists>s'. run_calls ten_reports (new_Reporter default_config) = Inr s' \<and> sends s' = []
           \<and> queue s' = replicate 10 err0)"
  using no_endpoint_never_sends [of "new_Reporter default_config" net_down ten_reports]
  by (simp add: new_Reporter_def default_config_def truthy_string_def truthy_bool_def
      sends_def ten_reports_def reported_replicate batchSize_or_10_def)

text \<open>
  Claim C10. \<open>report\<close> always resolves. On an enabled reporter whose custom reporter
  throws or rejects for the record, it resolves with the record appended to the queue;
  the custom reporter was called with the record already in the queue, and the failure
  went to the console.
\<close>

theorem report_catches_custom_reporter_failure:
  assumes "truthy_bool (enabled (config s))" and "customReporter (config s) = Some f"
    and "f e \<noteq> SinkReturns"
  shows "(\<exists>s'. report e n s = Inr s')
         \<and> report e n s =
             Inr (s\<lparr>queue := queue s @ [e],
                    trace := trace s @ [CustomReporterCall e (queue s @ [e]),
                                        ConsoleError ''Custom reporter failed:'']\<rparr>)"
  using assms
  by (cases "f e") (simp_all add: report_def Let_def log_event_def)

theorem report_catches_custom_reporter_failure_witness:
  "truthy_bool (enabled (config (new_Reporter throwing_sink_config)))
   \<and> customReporter (config (new_Reporter throwing_sink_config)) = Some throwing_sink
   \<and> throwing_sink err0 \<noteq> SinkReturns
   \<and> report err0 net_down (new_Reporter throwing_sink_config) =
       Inr \<lparr>config = throwing_sink_config, queue = [err0],
            trace = [CustomReporterCall err0 [err0], ConsoleError ''Custom reporter failed:'']\<rparr>"
  using report_catches_custom_reporter_failure
          [of "new_Reporter throwing_sink_config" throwing_sink err0 net_down]
  by (simp add: new_Reporter_def throwing_sink_config_def default_config_def truthy_bool_def
      throwing_sink_def)


section \<open>Properties of the recovery engine\<close>

lemma execute_guard: "isRecovering s \<Longrightarrow> execute a h s = (Resolved False, s)"
  by (simp add: execute.simps)

text \<open>
  A failed strategy on an idle engine. Below the maximum the counter goes up and
  \<open>execute\<close> calls itself, but the flag is still set, so the inner call returns at the
  guard: the strategy is not invoked again and the flag stays set. At the maximum the
  engine goes back to idle.
\<close>

lemma execute_failure_below_max:
  assumes "enabled_rc (config_re s)" and "\<not> isRecovering s"
    and "onRecovery (config_re s) a = CallbackReturns"
    and "performRecovery (config_re s) h a = (Resolved False, evs)"
    and "retryCount_re s < maxRetries_rc (config_re s)"
  shows "execute a h s =
           (Resolved False,
            s\<lparr>retryCount_re := retryCount_re s + 1, isRecovering := True,
              trace_re := trace_re s @ OnRecovery a # evs\<rparr>)"
  apply (subst execute.simps)
  using assms apply (simp add: log_re_def Let_def execute_guard)
  done

lemma execute_failure_at_max:
  assumes "enabled_rc (config_re s)" and "\<not> isRecovering s"
    and "onRecovery (config_re s) a = CallbackReturns"
    and "performRecovery (config_re s) h a = (Resolved False, evs)"
    and "\<not> retryCount_re s < maxRetries_rc (config_re s)"
  shows "execute a h s =
           (Resolved False,
            s\<lparr>isRecovering := False, trace_re := trace_re s @ OnRecovery a # evs\<rparr>)"
  apply (subst execute.simps)
  using assms apply (simp add: log_re_def Let_def)
  done


text \<open>
  Claim C2. On a fresh engine with \<open>maxRetries = 2\<close>, an action whose strategy fails
  is attempted once: \<open>execute\<close> resolves to false with the counter at 1, the strategy
  invoked a single time and the engine still recovering.
\<close>

theorem failed_execute_leaves_engine_recovering:
  "execute failing_action host0 (new_RecoveryEngine engine2_config) =
     (Resolved False,
      \<lparr>config_re = engine2_config, retryCount_re = 1, isRecovering = True,
       trace_re = [OnRecovery failing_action, CustomActionCall,
                   ConsoleErr ''Custom strategy failed:'']\<rparr>)
   \<and> isCurrentlyRecovering (snd (execute failing_action host0 (new_RecoveryEngine engine2_config)))"
proof -
  have "execute failing_action host0 (new_RecoveryEngine engine2_config) =
     (Resolved False,
      \<lparr>config_re = engine2_config, retryCount_re = 1, isRecovering = True,
       trace_re = [OnRecovery failing_action, CustomActionCall,
                   ConsoleErr ''Custom strategy failed:'']\<rparr>)"
    apply (subst execute.simps)
    apply (simp add: new_RecoveryEngine_def engine2_config_def log_re_def Let_def
        performRecovery_def handleCustom_def failing_action_def execute_guard)
    done
  then show ?thesis
    by (simp add: isCurrentlyRecovering_def)
qed








text \<open>
  Claim C6. While the engine is recovering, \<open>execute\<close> with any action resolves to
  false and returns the engine as it is: counter, flag, configuration and trace, so the
  callback is not invoked.
\<close>

theorem execute_while_recovering_is_noop:
  "isRecovering s \<Longrightarrow> execute a h s = (Resolved False, s)"
  by (simp add: execute.simps)

theorem execute_while_recovering_is_noop_witness:
  "isRecovering recovering_engine
   \<and> execute retry_action host0 recovering_engine = (Resolved False, recovering_engine)"
  using execute_while_recovering_is_noop [of recovering_engine retry_action host0]
  by (simp add: recovering_engine_def)

section \<open>Properties of the auto-correct engine\<close>

text \<open>
  Claim C5. After \<open>start\<close> and \<open>stop\<close> with the default configuration, the timer of the
  white-page check is cleared, but the mutation observer is still connected and the
  resize observer still observes its elements: a mutation still runs the page-break
  check and a resize still runs the visual-issue check.
\<close>

theorem stop_leaves_observers_connected:
  "fires_on_tick (snd (stop (start (new_AutoCorrect default_ac_config, browser0)))) = []
   \<and> fires_on_mutation (snd (stop (start (new_AutoCorrect default_ac_config, browser0))))
       = [CheckForPageBreaks]
   \<and> fires_on_resize 1 (snd (stop (start (new_AutoCorrect default_ac_config, browser0))))
       = [CheckForVisualIssues]
   \<and> isRunning (fst (stop (start (new_AutoCorrect default_ac_config, browser0)))) = False"
  by (simp add: start_def stop_def new_AutoCorrect_def default_ac_config_def browser0_def
      startWhitePageDetection_def startPageBreakDetection_def startVisualHealing_def
      setInterval_def clearInterval_def fires_on_tick_def fires_on_mutation_def
      fires_on_resize_def Let_def)

lemma save_history:
  "contentHistory (saveContentSnapshot b s) =
     (if length (contentHistory s) < 5 then contentHistory s else tl (contentHistory s))
       @ [body_innerHTML b]"
  by (cases "contentHistory s") (auto simp: saveContentSnapshot_def Let_def)

lemma save_length:
  "length (contentHistory s) \<le> 5 \<Longrightarrow> length (contentHistory (saveContentSnapshot b s)) \<le> 5"
  by (auto simp: save_history)

lemma restore_length:
  "length (contentHistory (fst (restoreFromHistory sb))) \<le> length (contentHistory (fst sb))"
  by (simp add: restoreFromHistory_def Let_def)

lemma run_history_length:
  "length (contentHistory (fst sb)) \<le> 5 \<Longrightarrow>
   length (contentHistory (fst (run_history cs sb))) \<le> 5"
proof (induction cs sb rule: run_history.induct)
  case (1 sb)
  then show ?case by simp
next
  case (2 html cs sb)
  then show ?case by (simp add: save_length)
next
  case (3 cs sb)
  have "length (contentHistory (fst (restoreFromHistory sb))) \<le> 5"
    using restore_length[of sb] "3.prems" by linarith
  then show ?case using "3.IH" by simp
qed

text \<open>Snapshots alone: the history is the last five of what it held plus what came.\<close>

lemma run_saves:
  "length (contentHistory (fst sb)) \<le> 5 \<Longrightarrow>
   contentHistory (fst (run_history (map SaveSnapshot xs) sb)) =
     drop (length (contentHistory (fst sb) @ xs) - 5) (contentHistory (fst sb) @ xs)"
proof (induction xs arbitrary: sb)
  case Nil
  then show ?case by simp
next
  case (Cons x xs)
  let ?b = "(snd sb)\<lparr>body_innerHTML := x\<rparr>"
  let ?sb1 = "(saveContentSnapshot ?b (fst sb), ?b)"
  let ?H = "contentHistory (fst sb)"
  have step: "run_history (map SaveSnapshot (x # xs)) sb = run_history (map SaveSnapshot xs) ?sb1"
    by simp
  have len1: "length (contentHistory (fst ?sb1)) \<le> 5"
    using Cons.prems by (simp add: save_length)
  have ih: "contentHistory (fst (run_history (map SaveSnapshot xs) ?sb1)) =
     drop (length (contentHistory (fst ?sb1) @ xs) - 5) (contentHistory (fst ?sb1) @ xs)"
    using Cons.IH[OF len1] .
  show ?case
  proof (cases "length ?H < 5")
    case True
    then have e: "contentHistory (fst ?sb1) @ xs = ?H @ x # xs"
      by (simp add: save_history)
    show ?thesis unfolding step ih e ..
  next
    case False
    with Cons.prems have l5: "length ?H = 5" by simp
    then obtain y ys where H: "?H = y # ys" by (cases ?H) auto
    have l4: "length ys = 4" using l5 H by simp
    have e: "contentHistory (fst ?sb1) @ xs = ys @ x # xs"
      using False H by (simp add: save_history)
    have a: "length (ys @ x # xs) - 5 = length xs" using l4 by simp
    have b: "length (?H @ x # xs) - 5 = Suc (length xs)" using l5 by simp
    have "contentHistory (fst (run_history (map SaveSnapshot (x # xs)) sb)) =
            drop (length xs) (ys @ x # xs)"
      unfolding step ih e a ..
    also have "\<dots> = drop (Suc (length xs)) (?H @ x # xs)" unfolding H by simp
    finally show ?thesis unfolding b .
  qed
qed

text \<open>
  Claim C8. Snapshots taken on a fresh engine leave the last five of them, in the order
  taken (so six leave the second to the sixth). One snapshot appends the markup of the
  body at the end, after dropping the oldest entry when the history already held five.
  A history of at most five entries stays so under any run of snapshots and restores.
\<close>

theorem snapshot_history_bounded_fifo:
  "contentHistory (fst (run_history (map SaveSnapshot xs) (new_AutoCorrect c, b)))
     = drop (length xs - 5) xs
   \<and> contentHistory (saveContentSnapshot b s) =
       (if length (contentHistory s) < 5 then contentHistory s else tl (contentHistory s))
         @ [body_innerHTML b]
   \<and> (length (contentHistory (fst sb)) \<le> 5 \<longrightarrow>
        length (contentHistory (fst (run_history cs sb))) \<le> 5)"
  using run_saves[of "(new_AutoCorrect c, b)" xs] save_history[of b s]
    run_history_length[of sb cs]
  by (simp add: new_AutoCorrect_def)

theorem snapshot_history_bounded_fifo_witness:
  "contentHistory (fst (run_history (map SaveSnapshot [''1'', ''2'', ''3'', ''4'', ''5'', ''6''])
       (new_AutoCorrect default_ac_config, browser0))) = [''2'', ''3'', ''4'', ''5'', ''6'']
   \<and> contentHistory (saveContentSnapshot browser0 full_engine)
        = [''b'', ''c'', ''d'', ''e'', ''<main>page</main>'']
   \<and> length (contentHistory (fst (full_engine, browser0))) \<le> 5
   \<and> length (contentHistory (fst (run_history
        [SaveSnapshot ''f'', RestoreFromHistory, SaveSnapshot ''g''] (full_engine, browser0)))) \<le> 5"
  using snapshot_history_bounded_fifo
          [of "[''1'', ''2'', ''3'', ''4'', ''5'', ''6'']" default_ac_config browser0 full_engine
              "(full_engine, browser0)"
              "[SaveSnapshot ''f'', RestoreFromHistory, SaveSnapshot ''g'']"]
  by (simp add: full_engine_def new_AutoCorrect_def browser0_def)

section \<open>Properties of the layout anomaly detector\<close>

















text \<open>
  A first check that the callback aborts records nothing: the baseline of 100 by 50
  stays, and the next check of the same box of 200 by 50 finds the same sizing anomaly
  again.
\<close>

lemma throwing_callback_keeps_stale_baseline:
  "check_ended (checkElementForAnomalies dom_wide 0 throwing_watcher) = CheckThrows
   \<and> check_watcher (checkElementForAnomalies dom_wide 0 throwing_watcher) = throwing_watcher
   \<and> check_handed (checkElementForAnomalies dom_wide 0 throwing_watcher) =
       [\<lparr>anomaly_type = Sizing, anomaly_element = 0, anomaly_severity = Low,
         boundingRect = Some \<lparr>rect_left = 0, rect_top = 0, rect_width = 200, rect_height = 50\<rparr>\<rparr>]"
  by (simp add: checkElementForAnomalies_def check_ended_def check_watcher_def check_handed_def
      dom_wide_def throwing_watcher_def plain_style_def Let_def checkOverflowAnomaly_def
      checkClippingAnomaly_def checkPositioningAnomaly_def checkSizingAnomaly_def
      checkVisibilityAnomaly_def js_div_def calculateSeverityFromDelta_def)

end
